theory Spec2Isabelle
  imports Complex_Main
begin

section \<open>Dynamic FBA right-hand sides of the community tutorial\<close>

text \<open>
  The notebook \<^verbatim>\<open>part2_community_dfba.ipynb\<close> defines three right-hand sides for
  \<^verbatim>\<open>scipy.integrate.solve_ivp\<close>: \<^verbatim>\<open>sc_dfba\<close> (yeast), \<^verbatim>\<open>ec_dfba\<close> (E. coli) and
  \<^verbatim>\<open>community_dfba\<close>. Each one builds a derivative vector \<^verbatim>\<open>xdot\<close> from the state
  vector \<^verbatim>\<open>x\<close>, edits exchange bounds of a cobra model inside a \<^verbatim>\<open>with model:\<close>
  block, calls \<^verbatim>\<open>model.optimize()\<close> and reads fluxes from the solution.

  Numbers: the notebook computes in IEEE double precision (numpy \<^verbatim>\<open>float64\<close>).
  The embedding uses \<^typ>\<open>real\<close>, so rounding, infinities and NaN are outside of it;
  the decimal literals \<^verbatim>\<open>0.18\<close>, \<^verbatim>\<open>0.046\<close>, \<^verbatim>\<open>0.01\<close>, \<^verbatim>\<open>0.1\<close> stand for the exact
  fractions.
\<close>

subsection \<open>Data\<close>

text \<open>Reaction identifiers are the strings of the BiGG models.\<close>

type_synonym reaction = string

abbreviation EX_glc__D_e :: reaction where "EX_glc__D_e \<equiv> ''EX_glc__D_e''"
abbreviation EX_o2_e :: reaction where "EX_o2_e \<equiv> ''EX_o2_e''"
abbreviation EX_nh4_e :: reaction where "EX_nh4_e \<equiv> ''EX_nh4_e''"
abbreviation EX_etoh_e :: reaction where "EX_etoh_e \<equiv> ''EX_etoh_e''"
abbreviation BIOMASS_SC5_notrace :: reaction where
  "BIOMASS_SC5_notrace \<equiv> ''BIOMASS_SC5_notrace''"
abbreviation BIOMASS_Ec_iJO1366_core_53p95M :: reaction where
  "BIOMASS_Ec_iJO1366_core_53p95M \<equiv> ''BIOMASS_Ec_iJO1366_core_53p95M''"

text \<open>
  The module-level kinetic parameters. The functions read them as globals at call
  time; here they are passed as one record.
\<close>

record kinetics =
  V_max_glc :: real
  K_m_glc :: real
  V_max_o2 :: real
  K_m_o2 :: real
  kLa_o2 :: real
  V_max_nh4 :: real
  V_max_eth :: real
  K_m_eth :: real

text \<open>The values the notebook assigns.\<close>

definition notebook_kinetics :: kinetics where
  "notebook_kinetics =
     \<lparr>V_max_glc = 10, K_m_glc = 1 / 100, V_max_o2 = 20, K_m_o2 = 1 / 10,
      kLa_o2 = 10, V_max_nh4 = 5, V_max_eth = 10, K_m_eth = 1 / 10\<rparr>"

text \<open>
  The exceptions that can leave a right-hand side: an index beyond the end of the
  state vector, and whatever \<^verbatim>\<open>optimize()\<close> raises (carried with its message).
\<close>

datatype error = IndexError | SolverError string

text \<open>
  What \<^verbatim>\<open>optimize()\<close> returns: a status string and the flux of every reaction. The
  reactions the notebook names exist in the two BiGG models it loads, so the lookups
  by these names are total.
\<close>

record solution =
  status :: string
  fluxes :: "reaction \<Rightarrow> real"

text \<open>
  Modelled from the spec: the cobra model object and its solver are not part of the
  repository. Section 6 of the specification gives the capability: set a lower bound,
  optimize, read a flux, and "scoped bound changes auto-revert at the end of a
  with-like scope". The model is its lower bounds and a stack of undo logs, one per
  open \<^verbatim>\<open>with\<close> scope; the solver is a function of the lower bounds in force that
  returns a solution or raises.
\<close>

record fba_model =
  lower_bounds :: "reaction \<Rightarrow> real"
  contexts :: "(reaction \<times> real) list list"

type_synonym optimizer = "(reaction \<Rightarrow> real) \<Rightarrow> error + solution"

definition enter_ctx :: "fba_model \<Rightarrow> fba_model" where
  "enter_ctx m = m\<lparr>contexts := [] # contexts m\<rparr>"

text \<open>
  Assigning \<^verbatim>\<open>reaction.lower_bound = v\<close>: inside a scope the old value is logged
  first.
\<close>

definition set_lower_bound :: "reaction \<Rightarrow> real \<Rightarrow> fba_model \<Rightarrow> fba_model" where
  "set_lower_bound r v m =
     (case contexts m of
        [] \<Rightarrow> m\<lparr>lower_bounds := (lower_bounds m)(r := v)\<rparr>
      | c # cs \<Rightarrow>
          m\<lparr>lower_bounds := (lower_bounds m)(r := v),
            contexts := ((r, lower_bounds m r) # c) # cs\<rparr>)"

text \<open>Replaying an undo log, newest entry first.\<close>

definition undo :: "(reaction \<times> real) list \<Rightarrow> (reaction \<Rightarrow> real) \<Rightarrow> reaction \<Rightarrow> real" where
  "undo c b = fold (\<lambda>(r, v) b'. b'(r := v)) c b"

definition exit_ctx :: "fba_model \<Rightarrow> fba_model" where
  "exit_ctx m =
     (case contexts m of
        [] \<Rightarrow> m
      | c # cs \<Rightarrow> m\<lparr>lower_bounds := undo c (lower_bounds m), contexts := cs\<rparr>)"

text \<open>
  \<^verbatim>\<open>with model: body\<close>. Python runs the exit of the scope on every way out of the
  body, a raised exception included, and the exception then continues.
\<close>

definition with_model ::
  "(fba_model \<Rightarrow> (error + 'a) \<times> fba_model) \<Rightarrow> fba_model \<Rightarrow> (error + 'a) \<times> fba_model" where
  "with_model body m = (case body (enter_ctx m) of (r, m') \<Rightarrow> (r, exit_ctx m'))"

subsection \<open>The kinetic constraint expression\<close>

text \<open>
  The conditional expression that \<^verbatim>\<open>sc_dfba\<close> writes for glucose and oxygen and
  \<^verbatim>\<open>ec_dfba\<close> for ethanol:
  \<^verbatim>\<open>- V_max * c / (K_m + c) if c > 0 else 0.0\<close>.
\<close>

definition mm_bound :: "real \<Rightarrow> real \<Rightarrow> real \<Rightarrow> real" where
  "mm_bound V_max K_m c = (if c > 0 then - V_max * c / (K_m + c) else 0)"

subsection \<open>The yeast step\<close>

text \<open>The three bound assignments at the head of the \<^verbatim>\<open>with sc_model:\<close> block.\<close>

definition sc_bounds :: "kinetics \<Rightarrow> real list \<Rightarrow> fba_model \<Rightarrow> fba_model" where
  "sc_bounds kin x m =
     (let m = set_lower_bound EX_glc__D_e (mm_bound (V_max_glc kin) (K_m_glc kin) (x ! 2)) m;
          m = set_lower_bound EX_o2_e (mm_bound (V_max_o2 kin) (K_m_o2 kin) (x ! 3)) m
      in set_lower_bound EX_nh4_e (- V_max_nh4 kin) m)"

text \<open>
  \<^verbatim>\<open>sc_dfba(t, x)\<close>. The first read of \<^verbatim>\<open>x[3]\<close> raises on a vector of fewer than
  four slots, before the scope is entered; after it only slot 4 can be out of range.
  The result is what is returned or raised, and the model as the call leaves it.
\<close>

definition sc_dfba ::
  "kinetics \<Rightarrow> optimizer \<Rightarrow> real \<Rightarrow> real list \<Rightarrow> fba_model \<Rightarrow> (error + real list) \<times> fba_model" where
  "sc_dfba kin optimize t x sc_model =
     (let xdot = map (\<lambda>v. 0 * v) x in
      if \<not> 3 < length x then (Inl IndexError, sc_model)
      else
        let xdot = xdot[3 := kLa_o2 kin * (10 - x ! 3)] in
        with_model (\<lambda>m.
          let m = sc_bounds kin x m in
          case optimize (lower_bounds m) of
            Inl e \<Rightarrow> (Inl e, m)
          | Inr sc_sol \<Rightarrow>
              if status sc_sol = ''optimal'' then
                (let xdot = xdot[0 := xdot ! 0 + fluxes sc_sol BIOMASS_SC5_notrace * x ! 0];
                     xdot = xdot[2 := xdot ! 2 + fluxes sc_sol EX_glc__D_e * 0.18 * x ! 0];
                     xdot = xdot[3 := xdot ! 3 + fluxes sc_sol EX_o2_e * 32 * x ! 0]
                 in if \<not> 4 < length x then (Inl IndexError, m)
                    else (Inr (xdot[4 := xdot ! 4 + fluxes sc_sol EX_etoh_e * 0.046 * x ! 0]), m))
              else (Inr xdot, m)) sc_model)"

subsection \<open>The E. coli step\<close>

text \<open>The three constant assignments at the head of the \<^verbatim>\<open>with ec_model:\<close> block.\<close>

definition ec_fixed_bounds :: "fba_model \<Rightarrow> fba_model" where
  "ec_fixed_bounds m =
     (let m = set_lower_bound EX_glc__D_e 0 m;
          m = set_lower_bound EX_o2_e 0 m
      in set_lower_bound EX_nh4_e 0 m)"

text \<open>All four assignments; the last one reads \<^verbatim>\<open>x[4]\<close>.\<close>

definition ec_bounds :: "kinetics \<Rightarrow> real list \<Rightarrow> fba_model \<Rightarrow> fba_model" where
  "ec_bounds kin x m =
     set_lower_bound EX_etoh_e (mm_bound (V_max_eth kin) (K_m_eth kin) (x ! 4))
       (ec_fixed_bounds m)"

text \<open>
  \<^verbatim>\<open>ec_dfba(t, x)\<close>. On a vector of exactly four slots the read of \<^verbatim>\<open>x[4]\<close> raises
  inside the scope, after three bounds have been assigned.
\<close>

definition ec_dfba ::
  "kinetics \<Rightarrow> optimizer \<Rightarrow> real \<Rightarrow> real list \<Rightarrow> fba_model \<Rightarrow> (error + real list) \<times> fba_model" where
  "ec_dfba kin optimize t x ec_model =
     (let xdot = map (\<lambda>v. 0 * v) x in
      if \<not> 3 < length x then (Inl IndexError, ec_model)
      else
        let xdot = xdot[3 := kLa_o2 kin * (10 - x ! 3)] in
        with_model (\<lambda>m.
          if \<not> 4 < length x then (Inl IndexError, ec_fixed_bounds m)
          else
            let m = ec_bounds kin x m in
            case optimize (lower_bounds m) of
              Inl e \<Rightarrow> (Inl e, m)
            | Inr ec_sol \<Rightarrow>
                if status ec_sol = ''optimal'' then
                  (Inr (xdot[4 := xdot ! 4 + fluxes ec_sol EX_etoh_e * 0.046 * x ! 1]), m)
                else (Inr xdot, m)) ec_model)"

subsection \<open>The community step\<close>

text \<open>
  The two \<^verbatim>\<open>with\<close> blocks of \<^verbatim>\<open>community_dfba\<close>. Neither assigns a bound; each
  optimizes its model as it stands and, on status \<^verbatim>\<open>optimal\<close>, adds the growth
  term to its own biomass slot.
\<close>

definition sc_block ::
  "optimizer \<Rightarrow> real list \<Rightarrow> real list \<Rightarrow> fba_model \<Rightarrow> (error + real list) \<times> fba_model" where
  "sc_block optimize x xdot sc_model =
     with_model (\<lambda>m.
       case optimize (lower_bounds m) of
         Inl e \<Rightarrow> (Inl e, m)
       | Inr sc_sol \<Rightarrow>
           if status sc_sol = ''optimal'' then
             (Inr (xdot[0 := xdot ! 0 + fluxes sc_sol BIOMASS_SC5_notrace * x ! 0]), m)
           else (Inr xdot, m)) sc_model"

definition ec_block ::
  "optimizer \<Rightarrow> real list \<Rightarrow> real list \<Rightarrow> fba_model \<Rightarrow> (error + real list) \<times> fba_model" where
  "ec_block optimize x xdot ec_model =
     with_model (\<lambda>m.
       case optimize (lower_bounds m) of
         Inl e \<Rightarrow> (Inl e, m)
       | Inr ec_sol \<Rightarrow>
           if status ec_sol = ''optimal'' then
             (Inr (xdot[1 := xdot ! 1 + fluxes ec_sol BIOMASS_Ec_iJO1366_core_53p95M * x ! 1]), m)
           else (Inr xdot, m)) ec_model"

text \<open>
  \<^verbatim>\<open>community_dfba(t, x)\<close>: the oxygen transfer term, then the yeast block, then the
  E. coli block. An exception in the yeast block leaves before the E. coli block runs.
\<close>

definition community_dfba ::
  "kinetics \<Rightarrow> optimizer \<Rightarrow> optimizer \<Rightarrow> real \<Rightarrow> real list \<Rightarrow> fba_model \<Rightarrow> fba_model \<Rightarrow>
   (error + real list) \<times> fba_model \<times> fba_model" where
  "community_dfba kin sc_optimize ec_optimize t x sc_model ec_model =
     (let xdot = map (\<lambda>v. 0 * v) x in
      if \<not> 3 < length x then (Inl IndexError, sc_model, ec_model)
      else
        let xdot = xdot[3 := kLa_o2 kin * (10 - x ! 3)] in
        case sc_block sc_optimize x xdot sc_model of
          (Inl e, sc_model') \<Rightarrow> (Inl e, sc_model', ec_model)
        | (Inr xdot, sc_model') \<Rightarrow>
            (case ec_block ec_optimize x xdot ec_model of
               (r, ec_model') \<Rightarrow> (r, sc_model', ec_model')))"

text \<open>
  The same step with the two blocks exchanged. This order is not in the notebook; it is
  the one the commutativity property compares \<^const>\<open>community_dfba\<close> with.
\<close>

definition community_dfba_swapped ::
  "kinetics \<Rightarrow> optimizer \<Rightarrow> optimizer \<Rightarrow> real \<Rightarrow> real list \<Rightarrow> fba_model \<Rightarrow> fba_model \<Rightarrow>
   (error + real list) \<times> fba_model \<times> fba_model" where
  "community_dfba_swapped kin sc_optimize ec_optimize t x sc_model ec_model =
     (let xdot = map (\<lambda>v. 0 * v) x in
      if \<not> 3 < length x then (Inl IndexError, sc_model, ec_model)
      else
        let xdot = xdot[3 := kLa_o2 kin * (10 - x ! 3)] in
        case ec_block ec_optimize x xdot ec_model of
          (Inl e, ec_model') \<Rightarrow> (Inl e, sc_model, ec_model')
        | (Inr xdot, ec_model') \<Rightarrow>
            (case sc_block sc_optimize x xdot sc_model of
               (r, sc_model') \<Rightarrow> (r, sc_model', ec_model')))"

section \<open>Properties\<close>

subsection \<open>Helper facts\<close>

lemma mm_bound_nonpos: "c \<le> 0 \<Longrightarrow> mm_bound V K c = 0"
  by (simp add: mm_bound_def)

lemma mm_bound_pos: "0 < c \<Longrightarrow> mm_bound V K c = - V * c / (K + c)"
  by (simp add: mm_bound_def)

lemma mm_bound_above_saturation: "0 < V \<Longrightarrow> 0 < K \<Longrightarrow> - V < mm_bound V K c"
  by (simp add: mm_bound_def field_simps)

lemma lower_bounds_set_lower_bound:
  "lower_bounds (set_lower_bound r v m) = (lower_bounds m)(r := v)"
  by (simp add: set_lower_bound_def split: list.splits)

lemma contexts_set_lower_bound:
  "contexts m = c # cs \<Longrightarrow> contexts (set_lower_bound r v m) = ((r, lower_bounds m r) # c) # cs"
  by (simp add: set_lower_bound_def)

lemma exit_ctx_set_lower_bound:
  "contexts m \<noteq> [] \<Longrightarrow> exit_ctx (set_lower_bound r v m) = exit_ctx m"
  by (cases "contexts m") (simp_all add: exit_ctx_def set_lower_bound_def undo_def)

lemma contexts_set_lower_bound_nonempty:
  "contexts m \<noteq> [] \<Longrightarrow> contexts (set_lower_bound r v m) \<noteq> []"
  by (cases "contexts m") (simp_all add: set_lower_bound_def)

lemma exit_ctx_enter_ctx: "exit_ctx (enter_ctx m) = m"
  by (simp add: exit_ctx_def enter_ctx_def undo_def)

lemma contexts_enter_ctx: "contexts (enter_ctx m) \<noteq> []"
  by (simp add: enter_ctx_def)

lemma exit_ctx_sc_bounds: "contexts m \<noteq> [] \<Longrightarrow> exit_ctx (sc_bounds kin x m) = exit_ctx m"
  by (simp add: sc_bounds_def Let_def exit_ctx_set_lower_bound contexts_set_lower_bound_nonempty)

lemma exit_ctx_ec_fixed_bounds: "contexts m \<noteq> [] \<Longrightarrow> exit_ctx (ec_fixed_bounds m) = exit_ctx m"
  by (simp add: ec_fixed_bounds_def Let_def exit_ctx_set_lower_bound contexts_set_lower_bound_nonempty)

lemma contexts_ec_fixed_bounds: "contexts m \<noteq> [] \<Longrightarrow> contexts (ec_fixed_bounds m) \<noteq> []"
  by (simp add: ec_fixed_bounds_def Let_def contexts_set_lower_bound_nonempty)

lemma exit_ctx_ec_bounds: "contexts m \<noteq> [] \<Longrightarrow> exit_ctx (ec_bounds kin x m) = exit_ctx m"
  by (simp add: ec_bounds_def exit_ctx_set_lower_bound exit_ctx_ec_fixed_bounds contexts_ec_fixed_bounds)

lemma snd_sc_dfba: "snd (sc_dfba kin optimize t x m) = m"
  by (simp add: sc_dfba_def with_model_def Let_def exit_ctx_sc_bounds contexts_enter_ctx
      exit_ctx_enter_ctx split: sum.splits prod.splits)

lemma snd_ec_dfba: "snd (ec_dfba kin optimize t x m) = m"
  by (simp add: ec_dfba_def with_model_def Let_def exit_ctx_ec_bounds exit_ctx_ec_fixed_bounds contexts_enter_ctx
      exit_ctx_enter_ctx split: sum.splits prod.splits)

subsection \<open>Bound isolation\<close>

text \<open>
  Claim C5. For every time and state vector, and whatever the optimization does (returns
  \<^verbatim>\<open>optimal\<close>, returns another status, or raises), and also when an index error
  leaves the function, the model that \<^verbatim>\<open>sc_dfba\<close> and \<^verbatim>\<open>ec_dfba\<close> leave behind is
  the model they were given: every lower bound has its value from before the call, and
  the stack of open scopes is as it was.
\<close>

theorem bounds_restored:
  "snd (sc_dfba kin optimize t x m) = m \<and> snd (ec_dfba kin optimize t x m) = m"
  by (simp add: snd_sc_dfba snd_ec_dfba)

subsection \<open>Facts about the derivative vectors\<close>

lemma fst_with_model: "fst (with_model body m) = fst (body (enter_ctx m))"
  by (simp add: with_model_def split: prod.splits)

lemma lower_bounds_enter_ctx: "lower_bounds (enter_ctx m) = lower_bounds m"
  by (simp add: enter_ctx_def)

lemma zero_vector: "map (\<lambda>v. 0) (x :: real list) = replicate (length x) 0"
  by (rule map_replicate_const)

lemma fst_sc_block:
  "fst (sc_block optimize x xdot m) =
     (case optimize (lower_bounds m) of
        Inl e \<Rightarrow> Inl e
      | Inr sol \<Rightarrow>
          if status sol = ''optimal'' then
            Inr (xdot[0 := xdot ! 0 + fluxes sol BIOMASS_SC5_notrace * x ! 0])
          else Inr xdot)"
  by (simp add: sc_block_def fst_with_model lower_bounds_enter_ctx split: sum.splits)

lemma fst_ec_block:
  "fst (ec_block optimize x xdot m) =
     (case optimize (lower_bounds m) of
        Inl e \<Rightarrow> Inl e
      | Inr sol \<Rightarrow>
          if status sol = ''optimal'' then
            Inr (xdot[1 := xdot ! 1 + fluxes sol BIOMASS_Ec_iJO1366_core_53p95M * x ! 1])
          else Inr xdot)"
  by (simp add: ec_block_def fst_with_model lower_bounds_enter_ctx split: sum.splits)

lemma sc_block_model: "sc_block optimize x xdot m = (r, m') \<Longrightarrow> m' = m"
  by (auto simp add: sc_block_def with_model_def exit_ctx_enter_ctx split: sum.splits prod.splits if_splits)

lemma ec_block_model: "ec_block optimize x xdot m = (r, m') \<Longrightarrow> m' = m"
  by (auto simp add: ec_block_def with_model_def exit_ctx_enter_ctx split: sum.splits prod.splits if_splits)

lemma fst_community_dfba:
  "fst (community_dfba kin sc_optimize ec_optimize t x sc_model ec_model) =
     (if \<not> 3 < length x then Inl IndexError
      else case fst (sc_block sc_optimize x
                 ((replicate (length x) 0)[3 := kLa_o2 kin * (10 - x ! 3)]) sc_model) of
             Inl e \<Rightarrow> Inl e
           | Inr xdot \<Rightarrow> fst (ec_block ec_optimize x xdot ec_model))"
  by (simp add: community_dfba_def Let_def zero_vector split: prod.splits sum.splits)

lemma fst_community_dfba_swapped:
  "fst (community_dfba_swapped kin sc_optimize ec_optimize t x sc_model ec_model) =
     (if \<not> 3 < length x then Inl IndexError
      else case fst (ec_block ec_optimize x
                 ((replicate (length x) 0)[3 := kLa_o2 kin * (10 - x ! 3)]) ec_model) of
             Inl e \<Rightarrow> Inl e
           | Inr xdot \<Rightarrow> fst (sc_block sc_optimize x xdot sc_model))"
  by (simp add: community_dfba_swapped_def Let_def zero_vector split: prod.splits sum.splits)

lemma snd_community_dfba:
  "snd (community_dfba kin sc_optimize ec_optimize t x sc_model ec_model) = (sc_model, ec_model)"
  by (auto simp add: community_dfba_def Let_def split: prod.splits sum.splits
      dest: sc_block_model ec_block_model)

lemma snd_community_dfba_swapped:
  "snd (community_dfba_swapped kin sc_optimize ec_optimize t x sc_model ec_model) = (sc_model, ec_model)"
  by (auto simp add: community_dfba_swapped_def Let_def split: prod.splits sum.splits
      dest: sc_block_model ec_block_model)

subsection \<open>The yeast step on an optimal solution\<close>

text \<open>
  Claim C1. For every time and every state vector of at least five slots, when the
  optimization of the yeast model (under the bounds \<^verbatim>\<open>sc_dfba\<close> has just assigned)
  returns a solution with status \<^verbatim>\<open>optimal\<close>, \<^verbatim>\<open>sc_dfba\<close> returns a vector of the
  length of the state whose slot 0 is the biomass flux times \<^verbatim>\<open>x[0]\<close>, whose slots 2,
  3 and 4 are the glucose, oxygen and ethanol exchange fluxes times the factors 0.18, 32
  and 0.046 and times \<^verbatim>\<open>x[0]\<close>, slot 3 holding in addition the transfer term
  \<^verbatim>\<open>kLa_o2 * (10.0 - x[3])\<close>; slot 1 stays zero.
\<close>

theorem sc_dfba_optimal:
  assumes "4 < length x"
    and "optimize (lower_bounds (sc_bounds kin x (enter_ctx m))) = Inr sol"
    and "status sol = ''optimal''"
  shows "\<exists>xdot. fst (sc_dfba kin optimize t x m) = Inr xdot \<and> length xdot = length x
     \<and> xdot ! 0 = fluxes sol BIOMASS_SC5_notrace * x ! 0
     \<and> xdot ! 1 = 0
     \<and> xdot ! 2 = fluxes sol EX_glc__D_e * 0.18 * x ! 0
     \<and> xdot ! 3 = kLa_o2 kin * (10 - x ! 3) + fluxes sol EX_o2_e * 32 * x ! 0
     \<and> xdot ! 4 = fluxes sol EX_etoh_e * 0.046 * x ! 0"
proof -
  from assms(1) have len: "0 < length x" "1 < length x" "2 < length x" "3 < length x"
    by auto
  show ?thesis
    using assms len by (simp add: sc_dfba_def fst_with_model Let_def zero_vector)
qed

theorem sc_dfba_optimal_witness:
  "\<exists>xdot. fst (sc_dfba notebook_kinetics
      (\<lambda>b. Inr \<lparr>status = ''optimal'',
         fluxes = (\<lambda>r. if r = BIOMASS_SC5_notrace then 1 / 4 else if r = EX_glc__D_e then - 10
                    else if r = EX_o2_e then - 2 else 15)\<rparr>) 0
      [1 / 100, 0, 10, 10, 0] \<lparr>lower_bounds = (\<lambda>r. - 1000), contexts = []\<rparr>) = Inr xdot
    \<and> xdot ! 0 = 1 / 400 \<and> xdot ! 2 = - (9 / 500) \<and> xdot ! 3 = - (16 / 25) \<and> xdot ! 4 = 69 / 10000"
  using sc_dfba_optimal [of "[1 / 100, 0, 10, 10, 0]"
      "(\<lambda>b. Inr \<lparr>status = ''optimal'',
         fluxes = (\<lambda>r. if r = BIOMASS_SC5_notrace then 1 / 4 else if r = EX_glc__D_e then - 10
                    else if r = EX_o2_e then - 2 else 15)\<rparr>)"
      notebook_kinetics "\<lparr>lower_bounds = (\<lambda>r. - 1000), contexts = []\<rparr>" _ 0]
  by (auto simp add: notebook_kinetics_def)

subsection \<open>Non-optimal solutions\<close>

text \<open>
  Claim C4. When the optimization returns a solution whose status is not
  \<^verbatim>\<open>optimal\<close>, the single-organism step (\<^verbatim>\<open>sc_dfba\<close> on a state of at least four
  slots, \<^verbatim>\<open>ec_dfba\<close> on one of at least five) raises nothing and returns the vector
  that is zero everywhere but in slot 3, which holds the oxygen transfer term alone.
\<close>

theorem nonoptimal_contributes_zero:
  assumes "status sol \<noteq> ''optimal''"
  shows "(3 < length x \<and> optimize (lower_bounds (sc_bounds kin x (enter_ctx m))) = Inr sol \<longrightarrow>
            fst (sc_dfba kin optimize t x m)
              = Inr ((replicate (length x) 0)[3 := kLa_o2 kin * (10 - x ! 3)]))
       \<and> (4 < length x \<and> optimize (lower_bounds (ec_bounds kin x (enter_ctx m))) = Inr sol \<longrightarrow>
            fst (ec_dfba kin optimize t x m)
              = Inr ((replicate (length x) 0)[3 := kLa_o2 kin * (10 - x ! 3)]))"
  using assms by (simp add: sc_dfba_def ec_dfba_def fst_with_model Let_def zero_vector)

theorem nonoptimal_contributes_zero_witness:
  "fst (sc_dfba notebook_kinetics (\<lambda>b. Inr \<lparr>status = ''infeasible'', fluxes = (\<lambda>r. 7)\<rparr>) 0
      [1 / 100, 0, 0, 4, 0] \<lparr>lower_bounds = (\<lambda>r. - 1000), contexts = []\<rparr>)
     = Inr [0, 0, 0, 60, 0]
   \<and> fst (ec_dfba notebook_kinetics (\<lambda>b. Inr \<lparr>status = ''infeasible'', fluxes = (\<lambda>r. 7)\<rparr>) 0
      [1 / 100, 0, 0, 4, 0] \<lparr>lower_bounds = (\<lambda>r. - 1000), contexts = []\<rparr>)
     = Inr [0, 0, 0, 60, 0]"
  using nonoptimal_contributes_zero [of "\<lparr>status = ''infeasible'', fluxes = (\<lambda>r. 7)\<rparr>"
      "[1 / 100, 0, 0, 4, 0]" "(\<lambda>b. Inr \<lparr>status = ''infeasible'', fluxes = (\<lambda>r. 7)\<rparr>)"
      notebook_kinetics "\<lparr>lower_bounds = (\<lambda>r. - 1000), contexts = []\<rparr>" 0]
  by (simp add: notebook_kinetics_def)

subsection \<open>What the E. coli step leaves untouched\<close>

text \<open>
  Claim C10. For every time and every state vector of at least five slots, whenever the
  optimization returns (with any status), \<^verbatim>\<open>ec_dfba\<close> returns a vector whose slots 0, 1
  and 2 are zero, whose slot 3 is the oxygen transfer term alone, and whose slot 4 is the
  ethanol exchange contribution on status \<^verbatim>\<open>optimal\<close> and zero otherwise.
\<close>

theorem ec_dfba_frame:
  assumes "4 < length x"
    and "optimize (lower_bounds (ec_bounds kin x (enter_ctx m))) = Inr sol"
  shows "\<exists>xdot. fst (ec_dfba kin optimize t x m) = Inr xdot \<and> length xdot = length x
     \<and> xdot ! 0 = 0 \<and> xdot ! 1 = 0 \<and> xdot ! 2 = 0
     \<and> xdot ! 3 = kLa_o2 kin * (10 - x ! 3)
     \<and> xdot ! 4 = (if status sol = ''optimal'' then fluxes sol EX_etoh_e * 0.046 * x ! 1 else 0)"
proof -
  from assms(1) have len: "0 < length x" "1 < length x" "2 < length x" "3 < length x"
    by auto
  show ?thesis
    using assms len by (simp add: ec_dfba_def fst_with_model Let_def zero_vector)
qed

theorem ec_dfba_frame_witness:
  "\<exists>xdot. fst (ec_dfba notebook_kinetics
      (\<lambda>b. Inr \<lparr>status = ''optimal'', fluxes = (\<lambda>r. if r = EX_etoh_e then b r else 3)\<rparr>) 0
      [0, 1 / 2, 10, 10, 1 / 10] \<lparr>lower_bounds = (\<lambda>r. - 1000), contexts = []\<rparr>) = Inr xdot
    \<and> xdot ! 0 = 0 \<and> xdot ! 1 = 0 \<and> xdot ! 2 = 0 \<and> xdot ! 3 = 0 \<and> xdot ! 4 = - (23 / 200)"
  using ec_dfba_frame [of "[0, 1 / 2, 10, 10, 1 / 10]"
      "(\<lambda>b. Inr \<lparr>status = ''optimal'', fluxes = (\<lambda>r. if r = EX_etoh_e then b r else 3)\<rparr>)"
      notebook_kinetics "\<lparr>lower_bounds = (\<lambda>r. - 1000), contexts = []\<rparr>" _ 0]
  by (auto simp add: notebook_kinetics_def ec_bounds_def lower_bounds_set_lower_bound mm_bound_def)

subsection \<open>The oxygen transfer term in the community step\<close>

text \<open>
  Claim C9. In every evaluation of \<^verbatim>\<open>community_dfba\<close> that returns (a state of at
  least four slots, both optimizations returning), slot 3 of the result is the transfer
  term \<^verbatim>\<open>kLa_o2 * (10.0 - x[3])\<close> taken once, whatever the two solutions are; when
  \<^verbatim>\<open>x[3]\<close> is the saturation value 10 the slot is zero.
\<close>

theorem community_oxygen_transfer_once:
  assumes "3 < length x"
    and "sc_optimize (lower_bounds sc_model) = Inr sc_sol"
    and "ec_optimize (lower_bounds ec_model) = Inr ec_sol"
  shows "\<exists>xdot. fst (community_dfba kin sc_optimize ec_optimize t x sc_model ec_model) = Inr xdot
     \<and> xdot ! 3 = kLa_o2 kin * (10 - x ! 3)
     \<and> (x ! 3 = 10 \<longrightarrow> xdot ! 3 = 0)"
proof -
  from assms(1) have len: "0 < length x" "1 < length x" "2 < length x"
    by auto
  show ?thesis
    using assms len by (simp add: fst_community_dfba fst_sc_block fst_ec_block)
qed

theorem community_oxygen_transfer_once_witness:
  "\<exists>xdot. fst (community_dfba notebook_kinetics
       (\<lambda>b. Inr \<lparr>status = ''optimal'', fluxes = (\<lambda>r. if r = EX_o2_e then - 2 else 1 / 4)\<rparr>)
       (\<lambda>b. Inr \<lparr>status = ''optimal'', fluxes = (\<lambda>r. if r = EX_o2_e then - 3 else 1 / 2)\<rparr>)
       0 [1 / 100, 1 / 100, 10, 4, 0]
       \<lparr>lower_bounds = (\<lambda>r. - 1000), contexts = []\<rparr>
       \<lparr>lower_bounds = (\<lambda>r. - 1000), contexts = []\<rparr>) = Inr xdot
     \<and> xdot ! 3 = 60"
  using community_oxygen_transfer_once [of "[1 / 100, 1 / 100, 10, 4, 0]"
       "(\<lambda>b. Inr \<lparr>status = ''optimal'', fluxes = (\<lambda>r. if r = EX_o2_e then - 2 else 1 / 4)\<rparr>)"
       "\<lparr>lower_bounds = (\<lambda>r. - 1000), contexts = []\<rparr>" _
       "(\<lambda>b. Inr \<lparr>status = ''optimal'', fluxes = (\<lambda>r. if r = EX_o2_e then - 3 else 1 / 2)\<rparr>)"
       "\<lparr>lower_bounds = (\<lambda>r. - 1000), contexts = []\<rparr>" _ notebook_kinetics 0]
  by (auto simp add: notebook_kinetics_def)

subsection \<open>Exchange fluxes in the community step\<close>

text \<open>
  Claim C2 says that the community step returns, in the glucose, oxygen and ethanol
  slots, the sum of both organisms' exchange-flux contributions. The notebook's
  \<^verbatim>\<open>community_dfba\<close> adds only the two growth terms; where the contributions belong
  it has the comment \<^verbatim>\<open># add resulting exchange fluxes to metabolite balances\<close>.
  Evaluated at the initial state of the community simulation with ethanol present,
  with both solutions optimal and nonzero exchange fluxes, slots 2, 3 and 4 of the result
  are zero, while each of the three sums of contributions is not.
\<close>

theorem community_drops_exchange_fluxes:
  "fst (community_dfba notebook_kinetics
       (\<lambda>b. Inr \<lparr>status = ''optimal'',
          fluxes = (\<lambda>r. if r = BIOMASS_SC5_notrace then 1 / 4 else if r = EX_glc__D_e then - 10
                     else if r = EX_o2_e then - 2 else 15)\<rparr>)
       (\<lambda>b. Inr \<lparr>status = ''optimal'',
          fluxes = (\<lambda>r. if r = BIOMASS_Ec_iJO1366_core_53p95M then 1 / 2 else if r = EX_etoh_e then - 5
                     else if r = EX_o2_e then - 3 else 0)\<rparr>)
       0 [1 / 100, 1 / 100, 10, 10, 1]
       \<lparr>lower_bounds = (\<lambda>r. - 1000), contexts = []\<rparr>
       \<lparr>lower_bounds = (\<lambda>r. - 1000), contexts = []\<rparr>)
     = Inr [1 / 400, 1 / 200, 0, 0, 0]
   \<and> (- 10) * 0.18 * (1 / 100) + 0 * 0.18 * (1 / 100) \<noteq> (0 :: real)
   \<and> (- 2) * 32 * (1 / 100) + (- 3) * 32 * (1 / 100) \<noteq> (0 :: real)
   \<and> 15 * 0.046 * (1 / 100) + (- 5) * 0.046 * (1 / 100) \<noteq> (0 :: real)"
  by (simp add: fst_community_dfba fst_sc_block fst_ec_block notebook_kinetics_def)

subsection \<open>Order of the two organisms\<close>

text \<open>
  Claim C7. For every time and state vector, the community step and the step with its
  two blocks exchanged return the same derivative vector: one returns a vector exactly
  when the other returns that vector, one raises exactly when the other raises (they can
  differ in which exception comes first when both optimizations raise), and both leave the
  two models as they found them.
\<close>

theorem community_order_irrelevant:
  "(fst (community_dfba kin sc_optimize ec_optimize t x sc_model ec_model) = Inr xdot
      \<longleftrightarrow> fst (community_dfba_swapped kin sc_optimize ec_optimize t x sc_model ec_model) = Inr xdot)
   \<and> (isl (fst (community_dfba kin sc_optimize ec_optimize t x sc_model ec_model))
      \<longleftrightarrow> isl (fst (community_dfba_swapped kin sc_optimize ec_optimize t x sc_model ec_model)))
   \<and> snd (community_dfba kin sc_optimize ec_optimize t x sc_model ec_model)
      = snd (community_dfba_swapped kin sc_optimize ec_optimize t x sc_model ec_model)"
proof -
  have swap: "xs[0 := a, Suc 0 := b] = xs[Suc 0 := b, 0 := a]" for xs :: "real list" and a b
    by (simp add: list_update_swap)
  show ?thesis
    by (auto simp add: fst_community_dfba fst_community_dfba_swapped fst_sc_block fst_ec_block
        snd_community_dfba snd_community_dfba_swapped swap split: sum.splits)
qed

subsection \<open>Values of the kinetic bounds\<close>

lemma lower_bounds_sc_bounds:
  "lower_bounds (sc_bounds kin x m) =
     (lower_bounds m)
       (EX_glc__D_e := mm_bound (V_max_glc kin) (K_m_glc kin) (x ! 2),
        EX_o2_e := mm_bound (V_max_o2 kin) (K_m_o2 kin) (x ! 3),
        EX_nh4_e := - V_max_nh4 kin)"
  by (simp add: sc_bounds_def Let_def lower_bounds_set_lower_bound)

lemma lower_bounds_ec_bounds:
  "lower_bounds (ec_bounds kin x m) =
     (lower_bounds m)
       (EX_glc__D_e := 0, EX_o2_e := 0, EX_nh4_e := 0,
        EX_etoh_e := mm_bound (V_max_eth kin) (K_m_eth kin) (x ! 4))"
  by (simp add: ec_bounds_def ec_fixed_bounds_def Let_def lower_bounds_set_lower_bound)

text \<open>
  Claim C3. For every state vector of at least five slots, the lower bound that
  \<^verbatim>\<open>sc_dfba\<close> assigns to the glucose and oxygen exchanges and \<^verbatim>\<open>ec_dfba\<close> to the
  ethanol exchange is \<^verbatim>\<open>- V_max * c / (K_m + c)\<close> when the concentration \<^verbatim>\<open>c\<close> is
  positive and 0 when it is zero or negative; in particular \<^verbatim>\<open>x[4] = 0\<close> gives the
  ethanol bound 0 for every \<^verbatim>\<open>V_max_eth\<close> and \<^verbatim>\<open>K_m_eth\<close>. The quotient is stated
  where its denominator is not zero: there double precision yields an infinity, which the
  real numbers do not have.
\<close>

theorem kinetic_bound_values:
  assumes "4 < length x"
  shows "(0 < x ! 2 \<and> K_m_glc kin + x ! 2 \<noteq> 0 \<longrightarrow>
            lower_bounds (sc_bounds kin x m) EX_glc__D_e
              = - V_max_glc kin * x ! 2 / (K_m_glc kin + x ! 2))
       \<and> (x ! 2 \<le> 0 \<longrightarrow> lower_bounds (sc_bounds kin x m) EX_glc__D_e = 0)
       \<and> (0 < x ! 3 \<and> K_m_o2 kin + x ! 3 \<noteq> 0 \<longrightarrow>
            lower_bounds (sc_bounds kin x m) EX_o2_e
              = - V_max_o2 kin * x ! 3 / (K_m_o2 kin + x ! 3))
       \<and> (x ! 3 \<le> 0 \<longrightarrow> lower_bounds (sc_bounds kin x m) EX_o2_e = 0)
       \<and> (0 < x ! 4 \<and> K_m_eth kin + x ! 4 \<noteq> 0 \<longrightarrow>
            lower_bounds (ec_bounds kin x m) EX_etoh_e
              = - V_max_eth kin * x ! 4 / (K_m_eth kin + x ! 4))
       \<and> (x ! 4 \<le> 0 \<longrightarrow> lower_bounds (ec_bounds kin x m) EX_etoh_e = 0)
       \<and> (x ! 4 = 0 \<longrightarrow> lower_bounds (ec_bounds kin x m) EX_etoh_e = 0)"
  by (simp add: lower_bounds_sc_bounds lower_bounds_ec_bounds mm_bound_nonpos mm_bound_pos)

theorem kinetic_bound_values_witness:
  "lower_bounds (sc_bounds notebook_kinetics [1 / 100, 0, 10, - 1, 0]
       \<lparr>lower_bounds = (\<lambda>r. - 1000), contexts = []\<rparr>) EX_glc__D_e = - (10000 / 1001)
   \<and> lower_bounds (sc_bounds notebook_kinetics [1 / 100, 0, 10, - 1, 0]
       \<lparr>lower_bounds = (\<lambda>r. - 1000), contexts = []\<rparr>) EX_o2_e = 0
   \<and> lower_bounds (ec_bounds notebook_kinetics [1 / 100, 0, 10, - 1, 0]
       \<lparr>lower_bounds = (\<lambda>r. - 1000), contexts = []\<rparr>) EX_etoh_e = 0"
  using kinetic_bound_values [of "[1 / 100, 0, 10, - 1, 0]" notebook_kinetics
       "\<lparr>lower_bounds = (\<lambda>r. - 1000), contexts = []\<rparr>"]
  by (simp add: notebook_kinetics_def)

subsection \<open>Which bounds a step assigns\<close>

text \<open>
  Claim C6 says that every kinetically limited exchange of the organism, the nitrogen
  source included, gets its bound from the Michaelis-Menten expression. In \<^verbatim>\<open>sc_dfba\<close>
  the ammonium bound is the constant \<^verbatim>\<open>- V_max_nh4\<close> ("dynamics for NH4 are not
  included in the model"): at the initial state of the yeast simulation, with the
  notebook's parameters, it is \<open>- 5\<close>, which is not the value of the expression at any
  of the three concentrations of the state (by \<open>mm_bound_above_saturation\<close> the
  expression never reaches \<open>- V_max\<close>). In \<^verbatim>\<open>ec_dfba\<close> the glucose bound is the
  constant 0 at a glucose concentration where the expression is not 0.
\<close>

theorem ammonium_bound_not_kinetic:
  "lower_bounds (sc_bounds notebook_kinetics [1 / 100, 0, 10, 10, 0]
       \<lparr>lower_bounds = (\<lambda>r. - 1000), contexts = []\<rparr>) EX_nh4_e = - 5
   \<and> mm_bound (V_max_nh4 notebook_kinetics) (K_m_glc notebook_kinetics)
         ([1 / 100, 0, 10, 10, 0] ! 2) \<noteq> - 5
   \<and> mm_bound (V_max_nh4 notebook_kinetics) (K_m_o2 notebook_kinetics)
         ([1 / 100, 0, 10, 10, 0] ! 3) \<noteq> - 5
   \<and> mm_bound (V_max_nh4 notebook_kinetics) (K_m_eth notebook_kinetics)
         ([1 / 100, 0, 10, 10, 0] ! 4) \<noteq> - 5
   \<and> lower_bounds (ec_bounds notebook_kinetics [0, 1 / 100, 10, 10, 0]
       \<lparr>lower_bounds = (\<lambda>r. - 1000), contexts = []\<rparr>) EX_glc__D_e = 0
   \<and> mm_bound (V_max_glc notebook_kinetics) (K_m_glc notebook_kinetics)
         ([0, 1 / 100, 10, 10, 0] ! 2) \<noteq> 0"
  by (simp add: lower_bounds_sc_bounds lower_bounds_ec_bounds notebook_kinetics_def mm_bound_def)

text \<open>
  Claim C6 as amended. On every evaluation on a state of at least five slots, the bounds
  under which \<^verbatim>\<open>sc_dfba\<close> calls the solver are those of its model with three
  entries assigned: the glucose and oxygen bounds are the Michaelis-Menten expression of
  \<^verbatim>\<open>x[2]\<close> and \<^verbatim>\<open>x[3]\<close>, the ammonium bound is the constant \<^verbatim>\<open>- V_max_nh4\<close>;
  and the bounds under which \<^verbatim>\<open>ec_dfba\<close> calls the solver have the Michaelis-Menten
  expression of \<^verbatim>\<open>x[4]\<close> as their ethanol entry. That the solver is called at
  exactly these bounds shows in its exception: whatever it raises there is what the step
  raises.
\<close>

theorem exchange_bounds_assigned:
  assumes "4 < length x"
  shows "lower_bounds (sc_bounds kin x (enter_ctx m)) =
           (lower_bounds m)
             (EX_glc__D_e := mm_bound (V_max_glc kin) (K_m_glc kin) (x ! 2),
              EX_o2_e := mm_bound (V_max_o2 kin) (K_m_o2 kin) (x ! 3),
              EX_nh4_e := - V_max_nh4 kin)
       \<and> (optimize ((lower_bounds m)
             (EX_glc__D_e := mm_bound (V_max_glc kin) (K_m_glc kin) (x ! 2),
              EX_o2_e := mm_bound (V_max_o2 kin) (K_m_o2 kin) (x ! 3),
              EX_nh4_e := - V_max_nh4 kin)) = Inl e \<longrightarrow>
            fst (sc_dfba kin optimize t x m) = Inl e)
       \<and> lower_bounds (ec_bounds kin x (enter_ctx m)) EX_etoh_e
            = mm_bound (V_max_eth kin) (K_m_eth kin) (x ! 4)
       \<and> (optimize (lower_bounds (ec_bounds kin x (enter_ctx m))) = Inl e \<longrightarrow>
            fst (ec_dfba kin optimize t x m) = Inl e)"
  using assms
  by (simp add: sc_dfba_def ec_dfba_def fst_with_model lower_bounds_sc_bounds
      lower_bounds_ec_bounds lower_bounds_enter_ctx Let_def)

theorem exchange_bounds_assigned_witness:
  "lower_bounds (sc_bounds notebook_kinetics [1 / 100, 1 / 100, 10, 10, 1 / 10]
       (enter_ctx \<lparr>lower_bounds = (\<lambda>r. - 1000), contexts = []\<rparr>))
     = (\<lambda>r. - 1000)(EX_glc__D_e := - (10000 / 1001), EX_o2_e := - (2000 / 101), EX_nh4_e := - 5)
   \<and> fst (sc_dfba notebook_kinetics
       (\<lambda>b. if b EX_glc__D_e = - (10000 / 1001) \<and> b EX_o2_e = - (2000 / 101) \<and> b EX_nh4_e = - 5
               \<or> b EX_etoh_e = - 5
             then Inl (SolverError ''raised'')
             else Inr \<lparr>status = ''optimal'', fluxes = (\<lambda>r. 1)\<rparr>) 0
       [1 / 100, 1 / 100, 10, 10, 1 / 10] \<lparr>lower_bounds = (\<lambda>r. - 1000), contexts = []\<rparr>)
     = Inl (SolverError ''raised'')
   \<and> lower_bounds (ec_bounds notebook_kinetics [1 / 100, 1 / 100, 10, 10, 1 / 10]
       (enter_ctx \<lparr>lower_bounds = (\<lambda>r. - 1000), contexts = []\<rparr>)) EX_etoh_e = - 5
   \<and> fst (ec_dfba notebook_kinetics
       (\<lambda>b. if b EX_glc__D_e = - (10000 / 1001) \<and> b EX_o2_e = - (2000 / 101) \<and> b EX_nh4_e = - 5
               \<or> b EX_etoh_e = - 5
             then Inl (SolverError ''raised'')
             else Inr \<lparr>status = ''optimal'', fluxes = (\<lambda>r. 1)\<rparr>) 0
       [1 / 100, 1 / 100, 10, 10, 1 / 10] \<lparr>lower_bounds = (\<lambda>r. - 1000), contexts = []\<rparr>)
     = Inl (SolverError ''raised'')"
  using exchange_bounds_assigned [of "[1 / 100, 1 / 100, 10, 10, 1 / 10]" notebook_kinetics
       "\<lparr>lower_bounds = (\<lambda>r. - 1000), contexts = []\<rparr>"
       "(\<lambda>b. if b EX_glc__D_e = - (10000 / 1001) \<and> b EX_o2_e = - (2000 / 101) \<and> b EX_nh4_e = - 5
               \<or> b EX_etoh_e = - 5
             then Inl (SolverError ''raised'')
             else Inr \<lparr>status = ''optimal'', fluxes = (\<lambda>r. 1)\<rparr>)"
       "SolverError ''raised''" 0]
  by (simp add: notebook_kinetics_def mm_bound_def lower_bounds_ec_bounds lower_bounds_enter_ctx)

subsection \<open>Monotonicity and saturation of the uptake bound\<close>

text \<open>
  Claim C8. For positive \<^verbatim>\<open>V_max\<close> and \<^verbatim>\<open>K_m\<close>, over positive concentrations the
  magnitude of the bound is \<^verbatim>\<open>V_max * c / (K_m + c)\<close> and is monotonically
  non-decreasing in \<^verbatim>\<open>c\<close> (so non-increasing as \<^verbatim>\<open>c\<close> falls towards 0), and the bound
  tends to \<^verbatim>\<open>- V_max\<close> as \<^verbatim>\<open>c\<close> tends to infinity.
\<close>

theorem uptake_bound_monotone_saturating:
  assumes "0 < V" and "0 < K"
  shows "(\<forall>c1 c2. 0 < c1 \<and> c1 \<le> c2 \<longrightarrow> \<bar>mm_bound V K c1\<bar> \<le> \<bar>mm_bound V K c2\<bar>)
       \<and> (\<forall>c. 0 < c \<longrightarrow> \<bar>mm_bound V K c\<bar> = V * c / (K + c))
       \<and> ((\<lambda>c. mm_bound V K c) \<longlongrightarrow> - V) at_top"
proof (intro conjI allI impI)
  fix c :: real
  assume "0 < c"
  with assms show "\<bar>mm_bound V K c\<bar> = V * c / (K + c)"
    by (simp add: mm_bound_def abs_if field_simps)
next
  fix c1 c2 :: real
  assume c: "0 < c1 \<and> c1 \<le> c2"
  with assms have "V * c1 / (K + c1) \<le> V * c2 / (K + c2)"
    by (simp add: field_simps)
  moreover from c assms have "\<bar>mm_bound V K c1\<bar> = V * c1 / (K + c1)"
    by (simp add: mm_bound_def abs_if field_simps)
  moreover from c assms have "\<bar>mm_bound V K c2\<bar> = V * c2 / (K + c2)"
    by (simp add: mm_bound_def abs_if field_simps)
  ultimately show "\<bar>mm_bound V K c1\<bar> \<le> \<bar>mm_bound V K c2\<bar>"
    by simp
next
  have "filterlim (\<lambda>c. K + c) at_top at_top"
    by (rule filterlim_tendsto_add_at_top [OF tendsto_const filterlim_ident])
  then have "((\<lambda>c. V * K / (K + c)) \<longlongrightarrow> 0) at_top"
    by (rule real_tendsto_divide_at_top [OF tendsto_const])
  then have "((\<lambda>c. - V + V * K / (K + c)) \<longlongrightarrow> - V + 0) at_top"
    by (intro tendsto_add tendsto_const)
  then have lim: "((\<lambda>c. - V + V * K / (K + c)) \<longlongrightarrow> - V) at_top"
    by simp
  have "eventually (\<lambda>c. - V + V * K / (K + c) = mm_bound V K c) at_top"
    using eventually_gt_at_top [of "0 :: real"]
  proof (rule eventually_mono)
    fix c :: real
    assume "0 < c"
    with assms show "- V + V * K / (K + c) = mm_bound V K c"
      by (simp add: mm_bound_def field_simps)
  qed
  then show "((\<lambda>c. mm_bound V K c) \<longlongrightarrow> - V) at_top"
    by (rule Lim_transform_eventually [OF lim])
qed

theorem uptake_bound_monotone_saturating_witness:
  "\<bar>mm_bound 10 (1 / 100) 1\<bar> \<le> \<bar>mm_bound 10 (1 / 100) 2\<bar>
   \<and> \<bar>mm_bound 10 (1 / 100) 1\<bar> = 10 * 1 / (1 / 100 + 1)
   \<and> ((\<lambda>c. mm_bound 10 (1 / 100) c) \<longlongrightarrow> - 10) at_top"
  using uptake_bound_monotone_saturating [of 10 "1 / 100"]
  by simp

end
